theory Spec2Isabelle
  imports Complex_Main "HOL-Library.Multiset"
begin

section \<open>Data model of the exposure notification service\<close>

text \<open>
  The service of \<^verbatim>\<open>ExposureNotificationService.ts\<close> keeps one status object and
  updates it through \<^verbatim>\<open>MapObservable.append\<close>. JavaScript numbers that hold
  timestamps, periods and bucket durations are modelled as \<open>int\<close>; the one place
  where the source divides (the seconds-to-minutes conversion) is computed in exact
  rational arithmetic. Logging (\<^verbatim>\<open>captureMessage\<close>, \<^verbatim>\<open>captureException\<close>) has no
  effect on the state and is left out.
\<close>

datatype ExposureStatusType = Monitoring | Exposed | Diagnosed

text \<open>
  \<^verbatim>\<open>ExposureSummary\<close> is declared in the bridge; the service reads two of its fields.
\<close>

record ExposureSummary =
  lastExposureTimestamp :: int
  attenuationDurations :: "int list"

text \<open>
  \<^verbatim>\<open>ExposureConfiguration\<close> is declared in the bridge; the service reads one field.
\<close>

record ExposureConfiguration =
  minimumExposureDurationMinutes :: int

text \<open>
  The checkpoint \<^verbatim>\<open>lastChecked = {period, timestamp}\<close>. The source passes the
  checkpoint around under the type \<^verbatim>\<open>any\<close>, and \<^verbatim>\<open>finalize\<close> stores whatever
  it is given as \<^verbatim>\<open>period\<close>, so a period is a JavaScript value: it can be
  \<^verbatim>\<open>undefined\<close>, \<^verbatim>\<open>null\<close>, \<^verbatim>\<open>NaN\<close>, a number, or a whole checkpoint object.
\<close>

datatype js_value = Undefined | Null | NaN | Num int | Obj last_checked
and last_checked = LastChecked (timestamp: int) (period: js_value)

text \<open>
  The status object. The TypeScript type is a tagged union, but \<^verbatim>\<open>append\<close> merges
  objects field by field, so at run time the status is one object whose fields other
  than \<^verbatim>\<open>type\<close> may each be absent. A \<^verbatim>\<open>Partial<ExposureStatus>\<close> is the same
  object with \<^verbatim>\<open>type\<close> optional as well: the record is parametrised by the type
  of its tag field.
\<close>

record 'tag status_fields =
  type :: 'tag
  summary :: "ExposureSummary option"
  notificationSent :: "bool option"
  needsSubmission :: "bool option"
  submissionLastCompletedAt :: "int option"
  uploadReminderLastSentAt :: "int option"
  cycleStartsAt :: "int option"
  cycleEndsAt :: "int option"
  lastChecked :: "last_checked option"

type_synonym ExposureStatus = "ExposureStatusType status_fields"
type_synonym PartialExposureStatus = "ExposureStatusType option status_fields"

definition EXPOSURE_NOTIFICATION_CYCLE :: int where
  "EXPOSURE_NOTIFICATION_CYCLE = 14"

definition HOURS_PER_PERIOD :: int where
  "HOURS_PER_PERIOD = 24"

text \<open>The empty partial object \<^verbatim>\<open>{}\<close>.\<close>

definition empty_partial :: PartialExposureStatus where
  "empty_partial = \<lparr>type = None, summary = None, notificationSent = None,
     needsSubmission = None, submissionLastCompletedAt = None,
     uploadReminderLastSentAt = None, cycleStartsAt = None, cycleEndsAt = None,
     lastChecked = None\<rparr>"

text \<open>The initial status of the constructor: \<^verbatim>\<open>{type: ExposureStatusType.Monitoring}\<close>.\<close>

definition initial_status :: ExposureStatus where
  "initial_status = \<lparr>type = Monitoring, summary = None, notificationSent = None,
     needsSubmission = None, submissionLastCompletedAt = None,
     uploadReminderLastSentAt = None, cycleStartsAt = None, cycleEndsAt = None,
     lastChecked = None\<rparr>"

fun or_else :: "'a option \<Rightarrow> 'a option \<Rightarrow> 'a option" where
  "or_else (Some v) _ = Some v"
| "or_else None old = old"

text \<open>
  Modelled from the spec: \<^verbatim>\<open>MapObservable.append\<close> (shared/Observable, not among the
  sources) "merges a partial-update object into the current status": a field present
  in the update replaces the current one, an absent field keeps it.
\<close>

definition append_status :: "ExposureStatus \<Rightarrow> PartialExposureStatus \<Rightarrow> ExposureStatus" where
  "append_status cur upd =
     \<lparr>type = (case type upd of None \<Rightarrow> type cur | Some t \<Rightarrow> t),
      summary = or_else (summary upd) (summary cur),
      notificationSent = or_else (notificationSent upd) (notificationSent cur),
      needsSubmission = or_else (needsSubmission upd) (needsSubmission cur),
      submissionLastCompletedAt =
        or_else (submissionLastCompletedAt upd) (submissionLastCompletedAt cur),
      uploadReminderLastSentAt =
        or_else (uploadReminderLastSentAt upd) (uploadReminderLastSentAt cur),
      cycleStartsAt = or_else (cycleStartsAt upd) (cycleStartsAt cur),
      cycleEndsAt = or_else (cycleEndsAt upd) (cycleEndsAt cur),
      lastChecked = or_else (lastChecked upd) (lastChecked cur)\<rparr>"

section \<open>Filtering and ranking of summaries\<close>

text \<open>\<^verbatim>\<open>Math.round\<close> rounds to the nearest integer, halves towards plus infinity.\<close>

definition Math_round :: "rat \<Rightarrow> int" where
  "Math_round x = \<lfloor>x + 1 / 2\<rfloor>"

text \<open>
  \<^verbatim>\<open>summaryExceedsMinimumMinutes\<close>. The first argument is \<^verbatim>\<open>Platform.OS === 'ios'\<close>.
  A bucket list with fewer than two entries makes \<^verbatim>\<open>attenuationDurations[i]\<close>
  \<^verbatim>\<open>undefined\<close>, the sum \<^verbatim>\<open>NaN\<close> and the comparison false. The result of
  \<^verbatim>\<open>minimumExposureDurationMinutes && ...\<close> is used as a filter predicate, so it is
  read by its truthiness: a threshold of 0 is falsy.
\<close>

definition summaryExceedsMinimumMinutes :: "bool \<Rightarrow> ExposureSummary \<Rightarrow> int \<Rightarrow> bool" where
  "summaryExceedsMinimumMinutes ios s minimumMinutes =
     (let divisor = (if ios then 60 else 1 :: rat) in
      case attenuationDurations s of
        d0 # d1 # _ \<Rightarrow>
          (let durationAtImmediateMinutes = of_int d0 / divisor;
               durationAtNearMinutes = of_int d1 / divisor;
               exposureDurationMinutes = durationAtImmediateMinutes + durationAtNearMinutes
           in minimumMinutes \<noteq> 0 \<and> Math_round exposureDurationMinutes \<ge> minimumMinutes)
      | _ \<Rightarrow> False)"

text \<open>
  \<^verbatim>\<open>summariesContainingExposures\<close>: filter, then \<^verbatim>\<open>Array.prototype.sort\<close> with the
  comparator \<^verbatim>\<open>summary2.lastExposureTimestamp - summary1.lastExposureTimestamp\<close>, a
  stable sort by descending timestamp.
\<close>

definition summariesContainingExposures ::
    "bool \<Rightarrow> int \<Rightarrow> ExposureSummary list \<Rightarrow> ExposureSummary list" where
  "summariesContainingExposures ios minimumMinutes summaries =
     sort_key (\<lambda>s. - lastExposureTimestamp s)
       (filter (\<lambda>s. summaryExceedsMinimumMinutes ios s minimumMinutes) summaries)"

text \<open>
  The combined immediate and near duration of a summary, rounded to minutes, for a
  summary that has both buckets.
\<close>

definition roundedMinutes :: "bool \<Rightarrow> ExposureSummary \<Rightarrow> int" where
  "roundedMinutes ios s =
     Math_round (of_int (attenuationDurations s ! 0) / (if ios then 60 else 1)
               + of_int (attenuationDurations s ! 1) / (if ios then 60 else 1))"


section \<open>Errors and JavaScript values\<close>

text \<open>
  What a collaborator (backend, storage provider, native framework, \<^verbatim>\<open>JSON.parse\<close>, the
  configuration validator) can throw. The catch block of \<^verbatim>\<open>getExposureConfiguration\<close>
  tells \<^verbatim>\<open>SyntaxError\<close> and \<^verbatim>\<open>ExposureConfigurationValidationError\<close> from the rest.
\<close>

datatype collab_error =
    SyntaxError
  | ExposureConfigurationValidationError
  | OtherError string

text \<open>
  What the service itself throws: \<^verbatim>\<open>new Error('Submission keys: bad certificate')\<close>, the
  exported object \<^verbatim>\<open>cannotGetTEKsError\<close>, \<^verbatim>\<open>new Error('Unable to use saved
  exposureConfiguration')\<close>, the \<^verbatim>\<open>TypeError\<close> of reading a property of
  \<^verbatim>\<open>undefined\<close>, or a collaborator's error passed on. The first two are objects the
  service creates, so no collaborator error is identical to them.
\<close>

datatype error =
    BadCertificate
  | cannotGetTEKsError
  | UnableToUseSavedConfiguration
  | TypeError
  | Thrown collab_error

text \<open>JavaScript truthiness, \<^verbatim>\<open>a || b\<close>, and \<^verbatim>\<open>Math.max\<close> of two values.\<close>

fun truthy :: "js_value \<Rightarrow> bool" where
  "truthy Undefined = False"
| "truthy Null = False"
| "truthy NaN = False"
| "truthy (Num n) = (n \<noteq> 0)"
| "truthy (Obj _) = True"

definition js_or :: "js_value \<Rightarrow> js_value \<Rightarrow> js_value" where
  "js_or a b = (if truthy a then a else b)"

text \<open>
  \<^verbatim>\<open>Math.max(a, b)\<close> converts its arguments to numbers: \<^verbatim>\<open>null\<close> is 0,
  \<^verbatim>\<open>undefined\<close> and an object are \<^verbatim>\<open>NaN\<close>, and \<^verbatim>\<open>NaN\<close> is contagious.
\<close>

fun ToNumber :: "js_value \<Rightarrow> int option" where
  "ToNumber (Num n) = Some n"
| "ToNumber Null = Some 0"
| "ToNumber _ = None"

definition Math_max :: "js_value \<Rightarrow> js_value \<Rightarrow> js_value" where
  "Math_max a b =
     (case (ToNumber a, ToNumber b) of
        (Some x, Some y) \<Rightarrow> Num (max x y)
      | _ \<Rightarrow> NaN)"

text \<open>\<^verbatim>\<open>lastChecked?.period\<close> on a checkpoint that may be \<^verbatim>\<open>undefined\<close>.\<close>

fun optional_period :: "last_checked option \<Rightarrow> js_value" where
  "optional_period None = Undefined"
| "optional_period (Some c) = period c"

section \<open>Dates\<close>

text \<open>Dates are milliseconds since the epoch (\<^verbatim>\<open>Date.getTime()\<close>).\<close>

text \<open>
  Modelled from the spec: \<^verbatim>\<open>periodSinceEpoch\<close> (shared/date-fns, not among the sources)
  gives the period, "an integer count of fixed-size (24h) windows since a fixed epoch".
\<close>

definition periodSinceEpoch :: "int \<Rightarrow> int \<Rightarrow> int" where
  "periodSinceEpoch date hoursPerPeriod = date div (hoursPerPeriod * 3600000)"

text \<open>
  Modelled from the spec: \<^verbatim>\<open>daysBetweenUTC\<close> (shared/date-fns, not among the sources),
  the count of calendar days from the first date to the second in UTC: it is at most 0
  when the first date "is on/after" the second date's day "in UTC". The operations
  below take this function and \<^verbatim>\<open>daysBetween\<close> as parameters; the two definitions
  here are the instances used at concrete inputs.
\<close>

definition calendarDaysUTC :: "int \<Rightarrow> int \<Rightarrow> int" where
  "calendarDaysUTC date1 date2 = date2 div 86400000 - date1 div 86400000"

text \<open>
  Modelled from the spec: \<^verbatim>\<open>daysBetween\<close> (shared/date-fns, not among the sources), the
  same count "using local device time", for a device at the given offset from UTC in
  milliseconds.
\<close>

definition calendarDaysLocal :: "int \<Rightarrow> int \<Rightarrow> int \<Rightarrow> int" where
  "calendarDaysLocal offset date1 date2 =
     (date2 + offset) div 86400000 - (date1 + offset) div 86400000"

section \<open>The service state and its collaborators\<close>

text \<open>
  The mutable state of the service: the status observable, the key
  \<^verbatim>\<open>lastExposureTimestamp\<close> of \<^verbatim>\<open>AsyncStorage\<close> (written by the service as the
  decimal string of a number and read back with \<^verbatim>\<open>parseInt\<close>, hence an \<open>int\<close>), and
  the key \<^verbatim>\<open>exposureConfiguration\<close> of the storage provider.
\<close>

record service =
  exposureStatus :: ExposureStatus
  lastExposureTimestampItem :: "int option"
  exposureConfigurationItem :: "string option"

text \<open>
  The collaborators of the configuration resolver, each given by its outcome: the backend's
  \<^verbatim>\<open>getExposureConfiguration\<close>, the schema validator (\<open>False\<close>: it throws
  \<^verbatim>\<open>ExposureConfigurationValidationError\<close>), \<^verbatim>\<open>JSON.stringify\<close> and \<^verbatim>\<open>JSON.parse\<close>
  (\<open>None\<close>: it throws \<^verbatim>\<open>SyntaxError\<close>), whether the storage provider rejects a write
  or a read, and the bundled \<^verbatim>\<open>ExposureConfigurationDefault.json\<close>.
\<close>

record config_io =
  backend_getExposureConfiguration :: "collab_error + ExposureConfiguration"
  schemaValid :: "ExposureConfiguration \<Rightarrow> bool"
  JSON_stringify :: "ExposureConfiguration \<Rightarrow> string"
  JSON_parse :: "string \<Rightarrow> ExposureConfiguration option"
  storage_setItem_error :: "collab_error option"
  storage_getItem_error :: "collab_error option"
  exposureConfigurationDefault :: ExposureConfiguration

text \<open>
  The collaborators of one exposure check: the clock (\<^verbatim>\<open>getCurrentDate\<close>, read as one
  instant during a check), the platform, the two day-counting functions of
  shared/date-fns, the native framework's \<^verbatim>\<open>getPendingExposureSummary\<close> (\<open>None\<close>:
  \<^verbatim>\<open>null\<close>) and \<^verbatim>\<open>detectExposure\<close>, the backend's \<^verbatim>\<open>retrieveDiagnosisKeys\<close>, and
  whether \<^verbatim>\<open>AsyncStorage\<close> rejects a read or a write.
\<close>

record check_io = config_io +
  currentDate :: int
  platformIsIOS :: bool
  daysBetween :: "int \<Rightarrow> int \<Rightarrow> int"
  daysBetweenUTC :: "int \<Rightarrow> int \<Rightarrow> int"
  getPendingExposureSummary :: "collab_error + ExposureSummary list option"
  retrieveDiagnosisKeys :: "int \<Rightarrow> collab_error + string"
  detectExposure :: "ExposureConfiguration \<Rightarrow> string list \<Rightarrow> collab_error + ExposureSummary list"
  AsyncStorage_getItem_error :: "collab_error option"
  AsyncStorage_setItem_error :: "collab_error option"

section \<open>Configuration resolver\<close>

text \<open>
  \<^verbatim>\<open>getAlternateExposureConfiguration\<close>: the \<^verbatim>\<open>try\<close> block reads the cache, throws when
  the item is \<^verbatim>\<open>null\<close> or empty, and parses it; the \<^verbatim>\<open>catch\<close> block returns the
  bundled default.
\<close>

definition getAlternateExposureConfiguration ::
    "'a config_io_scheme \<Rightarrow> service \<Rightarrow> error + ExposureConfiguration" where
  "getAlternateExposureConfiguration io st =
     (let tryBlock =
        (case storage_getItem_error io of
           Some e \<Rightarrow> Inl (Thrown e)
         | None \<Rightarrow>
             (case exposureConfigurationItem st of
                None \<Rightarrow> Inl UnableToUseSavedConfiguration
              | Some exposureConfigurationStr \<Rightarrow>
                  if exposureConfigurationStr = [] then Inl UnableToUseSavedConfiguration
                  else (case JSON_parse io exposureConfigurationStr of
                          None \<Rightarrow> Inl (Thrown SyntaxError)
                        | Some c \<Rightarrow> Inr c)))
      in case tryBlock of
           Inl err \<Rightarrow> Inr (exposureConfigurationDefault io)
         | Inr c \<Rightarrow> Inr c)"

text \<open>
  \<^verbatim>\<open>getExposureConfiguration\<close>: the \<^verbatim>\<open>try\<close> block fetches, validates and caches the
  remote configuration; the \<^verbatim>\<open>catch\<close> block (whatever the error) asks for the
  alternate configuration.
\<close>

definition getExposureConfiguration ::
    "'a config_io_scheme \<Rightarrow> service \<Rightarrow> (error + ExposureConfiguration) \<times> service" where
  "getExposureConfiguration io st =
     (let tryBlock =
        (case backend_getExposureConfiguration io of
           Inl e \<Rightarrow> (Inl (Thrown e), st)
         | Inr c \<Rightarrow>
             if \<not> schemaValid io c
             then (Inl (Thrown ExposureConfigurationValidationError), st)
             else (case storage_setItem_error io of
                     Some e \<Rightarrow> (Inl (Thrown e), st)
                   | None \<Rightarrow>
                       (Inr c, st\<lparr>exposureConfigurationItem := Some (JSON_stringify io c)\<rparr>)))
      in case tryBlock of
           (Inl err, st') \<Rightarrow> (getAlternateExposureConfiguration io st', st')
         | (Inr c, st') \<Rightarrow> (Inr c, st'))"

section \<open>Status state machine\<close>

text \<open>
  \<^verbatim>\<open>finalize(status = {}, lastCheckedPeriod = undefined)\<close>: merges the partial status
  and a fresh checkpoint into the current status. With no \<^verbatim>\<open>lastCheckedPeriod\<close> the
  period is \<^verbatim>\<open>status.lastChecked?.period || previous.lastChecked?.period || 0\<close>;
  otherwise it is the argument as it is.
\<close>

definition finalize ::
    "'a check_io_scheme \<Rightarrow> PartialExposureStatus \<Rightarrow> js_value \<Rightarrow> service \<Rightarrow> service" where
  "finalize io status lastCheckedPeriod st =
     (let previousExposureStatus = exposureStatus st;
          stamp = currentDate io;
          p = (if lastCheckedPeriod = Undefined
               then js_or (optional_period (lastChecked status))
                      (js_or (optional_period (lastChecked previousExposureStatus)) (Num 0))
               else lastCheckedPeriod)
      in st\<lparr>exposureStatus :=
              append_status previousExposureStatus (status\<lparr>lastChecked := Some (LastChecked stamp p)\<rparr>)\<rparr>)"

text \<open>\<^verbatim>\<open>selectExposureSummary\<close>: keep the current summary when the status is Exposed.\<close>

definition selectExposureSummary :: "service \<Rightarrow> ExposureSummary \<Rightarrow> ExposureSummary option" where
  "selectExposureSummary st nextSummary =
     (let cur = exposureStatus st in
      if type cur \<noteq> Exposed then Some nextSummary else summary cur)"

text \<open>
  \<^verbatim>\<open>setToExposed\<close>: writes the summary's timestamp to \<^verbatim>\<open>AsyncStorage\<close> (not awaited:
  a rejected write is lost and nothing is thrown), then finalizes.
\<close>

definition setToExposed ::
    "'a check_io_scheme \<Rightarrow> ExposureSummary \<Rightarrow> js_value \<Rightarrow> service \<Rightarrow> service" where
  "setToExposed io s lastCheckedPeriod st =
     (let st1 = (case AsyncStorage_setItem_error io of
                   Some e \<Rightarrow> st
                 | None \<Rightarrow> st\<lparr>lastExposureTimestampItem := Some (lastExposureTimestamp s)\<rparr>)
      in finalize io
           (empty_partial\<lparr>type := Some Exposed, summary := selectExposureSummary st1 s\<rparr>)
           lastCheckedPeriod st1)"

definition setToMonitoring :: "'a check_io_scheme \<Rightarrow> service \<Rightarrow> service" where
  "setToMonitoring io st = finalize io (empty_partial\<lparr>type := Some Monitoring\<rparr>) Undefined st"

text \<open>
  \<^verbatim>\<open>calculateNeedsSubmission\<close>. An absent \<^verbatim>\<open>cycleEndsAt\<close> gives an invalid date, a
  \<^verbatim>\<open>NaN\<close> day count and a false comparison.
\<close>

definition calculateNeedsSubmission :: "'a check_io_scheme \<Rightarrow> service \<Rightarrow> bool" where
  "calculateNeedsSubmission io st =
     (let cur = exposureStatus st; today = currentDate io in
      if type cur \<noteq> Diagnosed then False
      else if (case cycleEndsAt cur of
                 None \<Rightarrow> False
               | Some c \<Rightarrow> daysBetweenUTC io today c \<le> 0) then False
      else (case submissionLastCompletedAt cur of
              None \<Rightarrow> True
            | Some t \<Rightarrow>
                if t = 0 then True
                else if daysBetweenUTC io t today > 0 then True
                else False))"

text \<open>
  \<^verbatim>\<open>getStoredLastExposureTimestamp\<close>: \<^verbatim>\<open>undefined\<close> (\<open>None\<close>) unless Exposed; else
  the durable timestamp, else the summary's (reading it from an absent summary throws),
  else today, which is then written to \<^verbatim>\<open>AsyncStorage\<close> (awaited).
\<close>

definition getStoredLastExposureTimestamp ::
    "'a check_io_scheme \<Rightarrow> service \<Rightarrow> (error + int option) \<times> service" where
  "getStoredLastExposureTimestamp io st =
     (let cur = exposureStatus st in
      if type cur \<noteq> Exposed then (Inr None, st)
      else
        (case AsyncStorage_getItem_error io of
           Some e \<Rightarrow> (Inl (Thrown e), st)
         | None \<Rightarrow>
             (case lastExposureTimestampItem st of
                Some t \<Rightarrow> (Inr (Some t), st)
              | None \<Rightarrow>
                  (case summary cur of
                     None \<Rightarrow> (Inl TypeError, st)
                   | Some s \<Rightarrow>
                       if lastExposureTimestamp s \<noteq> 0
                       then (Inr (Some (lastExposureTimestamp s)), st)
                       else
                         (let today = currentDate io in
                          case AsyncStorage_setItem_error io of
                            Some e \<Rightarrow> (Inl (Thrown e), st)
                          | None \<Rightarrow>
                              (Inr (Some today),
                               st\<lparr>lastExposureTimestampItem := Some today\<rparr>))))))"

text \<open>
  \<^verbatim>\<open>updateExposure\<close>, the maintenance step of a check. Note the device-local
  \<^verbatim>\<open>daysBetween\<close> in both branches.
\<close>

definition updateExposure :: "'a check_io_scheme \<Rightarrow> service \<Rightarrow> (error + unit) \<times> service" where
  "updateExposure io st =
     (let currentStatus = exposureStatus st; today = currentDate io in
      case type currentStatus of
        Diagnosed \<Rightarrow>
          if (case cycleEndsAt currentStatus of
                None \<Rightarrow> False
              | Some c \<Rightarrow> daysBetween io today c \<le> 0)
          then (Inr (), setToMonitoring io st)
          else (Inr (),
                finalize io
                  (empty_partial\<lparr>needsSubmission := Some (calculateNeedsSubmission io st)\<rparr>)
                  Undefined st)
      | Exposed \<Rightarrow>
          (case getStoredLastExposureTimestamp io st of
             (Inl e, st') \<Rightarrow> (Inl e, st')
           | (Inr None, st') \<Rightarrow> (Inr (), st')
           | (Inr (Some t), st') \<Rightarrow>
               if daysBetween io t today \<ge> EXPOSURE_NOTIFICATION_CYCLE
               then (Inr (), setToMonitoring io st')
               else (Inr (), st'))
      | Monitoring \<Rightarrow> (Inr (), st))"

section \<open>Period key fetcher\<close>

text \<open>
  The \<^verbatim>\<open>while\<close> loop of the generator \<^verbatim>\<open>keysSinceLastFetch\<close>, as the list of the
  pairs it yields: a failed download is caught and the loop goes on.
\<close>

function keysLoop ::
    "(int \<Rightarrow> collab_error + string) \<Rightarrow> int \<Rightarrow> int \<Rightarrow> (string \<times> int) list" where
  "keysLoop retrieve runningPeriod lastCheckedPeriod =
     (if runningPeriod > lastCheckedPeriod
      then (case retrieve runningPeriod of
              Inr keysFileUrl \<Rightarrow>
                (keysFileUrl, runningPeriod)
                  # keysLoop retrieve (runningPeriod - 1) lastCheckedPeriod
            | Inl err \<Rightarrow> keysLoop retrieve (runningPeriod - 1) lastCheckedPeriod)
      else [])"
  by pat_completeness auto
termination
  by (relation "measure (\<lambda>(retrieve, runningPeriod, lastCheckedPeriod).
        nat (runningPeriod - lastCheckedPeriod))") auto

text \<open>
  \<^verbatim>\<open>keysSinceLastFetch(_lastCheckedPeriod)\<close>. A falsy checkpoint (absent, or 0) takes the
  bootstrap branch: one download, requested with the argument 0 and yielded under the
  current period. A number \<open>n\<close> gives the bound \<^verbatim>\<open>Math.max(n - 1, runningPeriod -
  14)\<close>; any other truthy value makes the bound \<^verbatim>\<open>NaN\<close> and the loop guard false.
\<close>

definition keysSinceLastFetch :: "'a check_io_scheme \<Rightarrow> js_value \<Rightarrow> (string \<times> int) list" where
  "keysSinceLastFetch io lcp =
     (let runningPeriod = periodSinceEpoch (currentDate io) HOURS_PER_PERIOD in
      if \<not> truthy lcp
      then (case retrieveDiagnosisKeys io 0 of
              Inr keysFileUrl \<Rightarrow> [(keysFileUrl, runningPeriod)]
            | Inl err \<Rightarrow> [])
      else (case lcp of
              Num n \<Rightarrow>
                keysLoop (retrieveDiagnosisKeys io) runningPeriod
                  (max (n - 1) (runningPeriod - EXPOSURE_NOTIFICATION_CYCLE))
            | _ \<Rightarrow> []))"

text \<open>
  The consumer loop of \<^verbatim>\<open>getKeys\<close> over the yielded pairs, with its two local
  variables \<^verbatim>\<open>keys\<close> and \<^verbatim>\<open>lastCheckedPeriod\<close>.
\<close>

fun drain :: "(string \<times> int) list \<Rightarrow> string list \<times> js_value \<Rightarrow> string list \<times> js_value" where
  "drain [] acc = acc"
| "drain ((keysFileUrl, p) # rest) (ks, lastCheckedPeriod) =
     drain rest (ks @ [keysFileUrl], Math_max (js_or lastCheckedPeriod (Num 0)) (Num p))"

text \<open>
  \<^verbatim>\<open>getKeys(lastChecked)\<close> returns \<^verbatim>\<open>{keys, lastChecked}\<close>: the list of handles and
  its own argument. The local variable \<^verbatim>\<open>lastCheckedPeriod\<close> is computed and dropped;
  \<open>getKeys_lastCheckedPeriod\<close> is its final value.
\<close>

definition getKeys ::
    "'a check_io_scheme \<Rightarrow> last_checked option \<Rightarrow> string list \<times> last_checked option" where
  "getKeys io lc =
     (let generator = keysSinceLastFetch io (optional_period lc);
          (ks, lastCheckedPeriod) = drain generator ([], optional_period lc)
      in (ks, lc))"

definition getKeys_lastCheckedPeriod :: "'a check_io_scheme \<Rightarrow> last_checked option \<Rightarrow> js_value" where
  "getKeys_lastCheckedPeriod io lc =
     snd (drain (keysSinceLastFetch io (optional_period lc)) ([], optional_period lc))"

section \<open>Exposure evaluator and the check\<close>

text \<open>
  \<^verbatim>\<open>getSummariesFromEnFramework\<close>: a non-empty pending summary is used directly;
  otherwise the maintenance step runs, the keys are fetched and the framework is asked.
  The \<^verbatim>\<open>catch\<close> block returns no summaries and a \<^verbatim>\<open>null\<close> checkpoint; what the
  \<^verbatim>\<open>try\<close> block had already written to the state stays written.
\<close>

definition getSummariesFromEnFramework ::
    "'a check_io_scheme \<Rightarrow> ExposureConfiguration \<Rightarrow> service
       \<Rightarrow> (ExposureSummary list \<times> js_value) \<times> service" where
  "getSummariesFromEnFramework io exposureConfiguration st =
     (let today = currentDate io in
      case getPendingExposureSummary io of
        Inl e \<Rightarrow> (([], Null), st)
      | Inr (Some (s # pendingSummaries)) \<Rightarrow>
          ((s # pendingSummaries,
            Obj (LastChecked today (Num (periodSinceEpoch today HOURS_PER_PERIOD)))), st)
      | Inr _ \<Rightarrow>
          (let currentStatus = exposureStatus st in
           case updateExposure io st of
             (Inl e, st') \<Rightarrow> (([], Null), st')
           | (Inr _, st') \<Rightarrow>
               (let (ks, lc) = getKeys io (lastChecked currentStatus);
                    lastCheckedPeriod = (case lc of None \<Rightarrow> Undefined | Some c \<Rightarrow> Obj c)
                in case detectExposure io exposureConfiguration ks of
                     Inl e \<Rightarrow> (([], Null), st')
                   | Inr summaries \<Rightarrow> ((summaries, lastCheckedPeriod), st'))))"

text \<open>\<^verbatim>\<open>performExposureCheck\<close>.\<close>

definition performExposureCheck :: "'a check_io_scheme \<Rightarrow> service \<Rightarrow> (error + unit) \<times> service" where
  "performExposureCheck io st =
     (case getExposureConfiguration io st of
        (Inl e, st1) \<Rightarrow> (Inl e, st1)
      | (Inr exposureConfiguration, st1) \<Rightarrow>
          (case getSummariesFromEnFramework io exposureConfiguration st1 of
             ((summaries, lastCheckedPeriod), st2) \<Rightarrow>
               (case summariesContainingExposures (platformIsIOS io)
                       (minimumExposureDurationMinutes exposureConfiguration) summaries of
                  s # _ \<Rightarrow> (Inr (), setToExposed io s lastCheckedPeriod st2)
                | [] \<Rightarrow> (Inr (), finalize io empty_partial Undefined st2))))"

section \<open>Key submission\<close>

text \<open>
  The collaborators of \<^verbatim>\<open>fetchAndSubmitKeys\<close>, each given by its outcome: the secure
  storage read of the submission credential (\<open>None\<close>: \<^verbatim>\<open>null\<close>), \<^verbatim>\<open>JSON.parse\<close> of
  the credential, the native framework's \<^verbatim>\<open>getTemporaryExposureKeyHistory\<close>, the
  backend's \<^verbatim>\<open>reportDiagnosisKeys\<close> (\<open>Some e\<close>: it throws), and the clock.
\<close>

record ('auth, 'key, 'info) submit_io =
  secureStorage_get :: "collab_error + string option"
  JSON_parse_auth :: "string \<Rightarrow> 'auth option"
  getTemporaryExposureKeyHistory :: "collab_error + 'key list"
  reportDiagnosisKeys :: "'auth \<Rightarrow> 'key list \<Rightarrow> 'info \<Rightarrow> collab_error option"
  submit_currentDate :: int

text \<open>The calls a run makes to the native framework and the backend, in order.\<close>

datatype ('auth, 'key, 'info) call =
    GetTemporaryExposureKeyHistory
  | ReportDiagnosisKeys 'auth "'key list" 'info

text \<open>\<^verbatim>\<open>recordKeySubmission\<close>: nothing unless the status is Diagnosed.\<close>

definition recordKeySubmission :: "int \<Rightarrow> service \<Rightarrow> service" where
  "recordKeySubmission today st =
     (let currentStatus = exposureStatus st in
      if type currentStatus \<noteq> Diagnosed then st
      else st\<lparr>exposureStatus :=
                append_status currentStatus
                  (empty_partial\<lparr>needsSubmission := Some False,
                                 submissionLastCompletedAt := Some today\<rparr>)\<rparr>)"

text \<open>
  \<^verbatim>\<open>fetchAndSubmitKeys\<close>: the outcome, the calls made, and the state afterwards.
\<close>

definition fetchAndSubmitKeys ::
    "('auth, 'key, 'info) submit_io \<Rightarrow> 'info \<Rightarrow> service
       \<Rightarrow> (error + unit) \<times> ('auth, 'key, 'info) call list \<times> service" where
  "fetchAndSubmitKeys io contagiousDateInfo st =
     (case secureStorage_get io of
        Inl e \<Rightarrow> (Inl (Thrown e), [], st)
      | Inr None \<Rightarrow> (Inl BadCertificate, [], st)
      | Inr (Some submissionKeysStr) \<Rightarrow>
          if submissionKeysStr = [] then (Inl BadCertificate, [], st)
          else
            (case JSON_parse_auth io submissionKeysStr of
               None \<Rightarrow> (Inl (Thrown SyntaxError), [], st)
             | Some auth \<Rightarrow>
                 (case getTemporaryExposureKeyHistory io of
                    Inl e \<Rightarrow> (Inl cannotGetTEKsError, [GetTemporaryExposureKeyHistory], st)
                  | Inr temporaryExposureKeys \<Rightarrow>
                      if length temporaryExposureKeys > 0
                      then
                        (case reportDiagnosisKeys io auth temporaryExposureKeys
                                contagiousDateInfo of
                           Some e \<Rightarrow>
                             (Inl (Thrown e),
                              [GetTemporaryExposureKeyHistory,
                               ReportDiagnosisKeys auth temporaryExposureKeys contagiousDateInfo],
                              st)
                         | None \<Rightarrow>
                             (Inr (),
                              [GetTemporaryExposureKeyHistory,
                               ReportDiagnosisKeys auth temporaryExposureKeys contagiousDateInfo],
                              recordKeySubmission (submit_currentDate io) st))
                      else
                        (Inr (), [GetTemporaryExposureKeyHistory],
                         recordKeySubmission (submit_currentDate io) st))))"

text \<open>Whether a run uploaded anything.\<close>

fun is_upload :: "('auth, 'key, 'info) call \<Rightarrow> bool" where
  "is_upload (ReportDiagnosisKeys _ _ _) = True"
| "is_upload GetTemporaryExposureKeyHistory = False"

section \<open>Single-flight status update\<close>











section \<open>Notions used to state the properties\<close>

text \<open>
  The three tiers of the configuration resolver: the remote configuration when it was
  fetched, passed validation and was written to the cache; the cached configuration
  when the cache could be read, is not empty and parses.
\<close>

definition remoteConfiguration :: "'a config_io_scheme \<Rightarrow> ExposureConfiguration option" where
  "remoteConfiguration io =
     (case backend_getExposureConfiguration io of
        Inl e \<Rightarrow> None
      | Inr c \<Rightarrow> if schemaValid io c \<and> storage_setItem_error io = None then Some c else None)"

definition cachedConfiguration :: "'a config_io_scheme \<Rightarrow> service \<Rightarrow> ExposureConfiguration option" where
  "cachedConfiguration io st =
     (if storage_getItem_error io \<noteq> None then None
      else case exposureConfigurationItem st of
             None \<Rightarrow> None
           | Some str \<Rightarrow> if str = [] then None else JSON_parse io str)"

text \<open>
  The current period, the low end of the fetch window for a numeric checkpoint, and one
  download attempt: the pair it yields, or nothing when the download fails.
\<close>

definition currentPeriod :: "'a check_io_scheme \<Rightarrow> int" where
  "currentPeriod io = periodSinceEpoch (currentDate io) HOURS_PER_PERIOD"

definition lookbackBound :: "'a check_io_scheme \<Rightarrow> int \<Rightarrow> int" where
  "lookbackBound io n = max (n - 1) (currentPeriod io - 14)"

definition attempt :: "(int \<Rightarrow> collab_error + string) \<Rightarrow> int \<Rightarrow> (string \<times> int) option" where
  "attempt retrieve p = (case retrieve p of Inr u \<Rightarrow> Some (u, p) | Inl e \<Rightarrow> None)"

text \<open>
  A status finalized as it stands: only the checkpoint is written, with the time of
  the check and the period it had (0 when it had none).
\<close>

definition restamped :: "int \<Rightarrow> ExposureStatus \<Rightarrow> ExposureStatus" where
  "restamped today s =
     s\<lparr>lastChecked :=
         Some (LastChecked today (js_or (optional_period (lastChecked s)) (Num 0)))\<rparr>"

text \<open>The configuration a check resolves, by the three tiers.\<close>

definition resolvedConfiguration :: "'a config_io_scheme \<Rightarrow> service \<Rightarrow> ExposureConfiguration" where
  "resolvedConfiguration io st =
     (case remoteConfiguration io of
        Some c \<Rightarrow> c
      | None \<Rightarrow>
          (case cachedConfiguration io st of
             Some c \<Rightarrow> c
           | None \<Rightarrow> exposureConfigurationDefault io))"

text \<open>
  The platform has queued no pending summary: the query returns \<^verbatim>\<open>null\<close> or an
  empty list, so the check runs the maintenance step and the key fetch.
\<close>

definition noPendingSummary :: "'a check_io_scheme \<Rightarrow> bool" where
  "noPendingSummary io =
     (getPendingExposureSummary io = Inr None \<or> getPendingExposureSummary io = Inr (Some []))"

text \<open>
  An exception occurs inside the check pipeline, that is, inside the \<^verbatim>\<open>try\<close> block of
  \<^verbatim>\<open>getSummariesFromEnFramework\<close>: the pending-summary query throws, or, with no
  pending summary, the maintenance step throws or the framework's detection does
  (the key fetch catches its own errors).
\<close>

definition pipelineThrows :: "'a check_io_scheme \<Rightarrow> service \<Rightarrow> bool" where
  "pipelineThrows io st =
     (case getPendingExposureSummary io of
        Inl e \<Rightarrow> True
      | Inr (Some (s # pendingSummaries)) \<Rightarrow> False
      | Inr _ \<Rightarrow>
          isl (fst (updateExposure io st))
          \<or> isl (detectExposure io (resolvedConfiguration io st)
                   (fst (getKeys io (lastChecked (exposureStatus st))))))"

text \<open>
  The summaries that the detection run of a check finds and that pass the threshold
  filter (none when the detection throws).
\<close>

definition detectedExposures :: "'a check_io_scheme \<Rightarrow> service \<Rightarrow> ExposureSummary list" where
  "detectedExposures io st =
     summariesContainingExposures (platformIsIOS io)
       (minimumExposureDurationMinutes (resolvedConfiguration io st))
       (case detectExposure io (resolvedConfiguration io st)
               (fst (getKeys io (lastChecked (exposureStatus st)))) of
          Inl e \<Rightarrow> []
        | Inr summaries \<Rightarrow> summaries)"

text \<open>
  No submission credential is stored: the secure storage read returns \<^verbatim>\<open>null\<close> or
  the empty string.
\<close>

definition noCredentialStored :: "('auth, 'key, 'info) submit_io \<Rightarrow> bool" where
  "noCredentialStored io =
     (secureStorage_get io = Inr None \<or> secureStorage_get io = Inr (Some []))"



section \<open>Concrete inputs\<close>

text \<open>
  A device five hours behind UTC, on iOS, at 2020-09-15 01:00 UTC (20:00 of the day
  before in local time), in period 18520. The backend serves every download, the
  framework has no pending summary and detects nothing.
\<close>

definition example_url :: "int \<Rightarrow> string" where
  "example_url p =
     (if p = 0 then ''batch-0''
      else if p = 18520 then ''batch-18520''
      else if p = 18519 then ''batch-18519''
      else if p = 18518 then ''batch-18518''
      else ''batch-older'')"

definition example_io :: check_io where
  "example_io =
     \<lparr>backend_getExposureConfiguration = Inr \<lparr>minimumExposureDurationMinutes = 15\<rparr>,
      schemaValid = (\<lambda>c. minimumExposureDurationMinutes c > 0),
      JSON_stringify = (\<lambda>c. if minimumExposureDurationMinutes c = 15 then ''remote'' else ''other''),
      JSON_parse =
        (\<lambda>str. if str = ''remote'' then Some \<lparr>minimumExposureDurationMinutes = 15\<rparr>
               else if str = ''cached'' then Some \<lparr>minimumExposureDurationMinutes = 10\<rparr>
               else None),
      storage_setItem_error = None,
      storage_getItem_error = None,
      exposureConfigurationDefault = \<lparr>minimumExposureDurationMinutes = 20\<rparr>,
      currentDate = 1600131600000,
      platformIsIOS = True,
      daysBetween = calendarDaysLocal (- 18000000),
      daysBetweenUTC = calendarDaysUTC,
      getPendingExposureSummary = Inr None,
      retrieveDiagnosisKeys = (\<lambda>p. Inr (example_url p)),
      detectExposure = (\<lambda>c ks. Inr []),
      AsyncStorage_getItem_error = None,
      AsyncStorage_setItem_error = None\<rparr>"

definition example_service :: service where
  "example_service =
     \<lparr>exposureStatus = initial_status, lastExposureTimestampItem = None,
      exposureConfigurationItem = None\<rparr>"

text \<open>
  Summaries in seconds: 15 minutes and 30 seconds, 20 minutes, and nothing in the
  immediate and near buckets.
\<close>

definition example_summary :: ExposureSummary where
  "example_summary = \<lparr>lastExposureTimestamp = 1599000000000, attenuationDurations = [600, 330, 0]\<rparr>"

definition older_summary :: ExposureSummary where
  "older_summary = \<lparr>lastExposureTimestamp = 1598000000000, attenuationDurations = [1200, 0, 0]\<rparr>"

definition brief_summary :: ExposureSummary where
  "brief_summary = \<lparr>lastExposureTimestamp = 1599500000000, attenuationDurations = [0, 0, 900]\<rparr>"

definition exposed_status :: "ExposureSummary \<Rightarrow> ExposureStatus" where
  "exposed_status s = initial_status\<lparr>type := Exposed, summary := Some s\<rparr>"

text \<open>A diagnosis whose cycle ends at the given date, fourteen days after it started.\<close>

definition diagnosed_status :: "int \<Rightarrow> ExposureStatus" where
  "diagnosed_status c =
     initial_status\<lparr>type := Diagnosed, needsSubmission := Some True,
       cycleStartsAt := Some (c - 14 * 86400000), cycleEndsAt := Some c\<rparr>"

text \<open>The same device when the download of period 18519 times out.\<close>

definition io_19 :: check_io where
  "io_19 = example_io\<lparr>retrieveDiagnosisKeys :=
             (\<lambda>p. if p = 18519 then Inl (OtherError ''timeout'') else Inr (example_url p))\<rparr>"

text \<open>A submission with a stored credential and no keys to share.\<close>

definition example_submit_io :: "(string, nat, unit) submit_io" where
  "example_submit_io =
     \<lparr>secureStorage_get = Inr (Some ''credential''),
      JSON_parse_auth = (\<lambda>str. Some str),
      getTemporaryExposureKeyHistory = Inr [],
      reportDiagnosisKeys = (\<lambda>auth ks info. None),
      submit_currentDate = 1600131600000\<rparr>"

definition diagnosed_service :: service where
  "diagnosed_service = example_service\<lparr>exposureStatus := diagnosed_status 1600900000000\<rparr>"


text \<open>The device when the storage provider rejects the write of the configuration cache.\<close>

definition write_fails_io :: check_io where
  "write_fails_io = example_io\<lparr>storage_setItem_error := Some (OtherError ''storage'')\<rparr>"

text \<open>The device when \<^verbatim>\<open>AsyncStorage\<close> rejects the read of the durable timestamp.\<close>

definition read_fails_io :: check_io where
  "read_fails_io = example_io\<lparr>AsyncStorage_getItem_error := Some (OtherError ''storage'')\<rparr>"

text \<open>
  A service whose last check, at period 18518, left a checkpoint; the framework's
  pending-summary query failing; the framework's detection failing.
\<close>

definition checked_service :: service where
  "checked_service =
     example_service\<lparr>exposureStatus :=
       initial_status\<lparr>lastChecked := Some (LastChecked 1600000000000 (Num 18518))\<rparr>\<rparr>"

definition pending_fails_io :: check_io where
  "pending_fails_io = example_io\<lparr>getPendingExposureSummary := Inl (OtherError ''framework'')\<rparr>"

definition detect_fails_io :: check_io where
  "detect_fails_io = example_io\<lparr>detectExposure := (\<lambda>c ks. Inl (OtherError ''framework''))\<rparr>"

text \<open>
  Two diagnoses. The cycle of the first ends at 2020-09-14 16:13 UTC, before the
  check on both calendars. The cycle of the second ends at 2020-09-15 06:00 UTC: the
  same UTC day as the check (01:00 UTC), but the next day on the device's calendar,
  where the check happens at 20:00 of 2020-09-14 and the cycle ends at 01:00 of
  2020-09-15.
\<close>

definition cycle_ended_service :: service where
  "cycle_ended_service = example_service\<lparr>exposureStatus := diagnosed_status 1600100000000\<rparr>"

definition cycle_ended_utc_service :: service where
  "cycle_ended_utc_service = example_service\<lparr>exposureStatus := diagnosed_status 1600149600000\<rparr>"

text \<open>An exposed service with the given durable last-exposure timestamp.\<close>

definition exposed_service :: "int \<Rightarrow> service" where
  "exposed_service t =
     example_service\<lparr>exposureStatus := exposed_status example_summary,
                      lastExposureTimestampItem := Some t\<rparr>"

text \<open>
  The same device when the platform has queued a pending summary, one that does not
  pass the threshold.
\<close>

definition pending_io :: check_io where
  "pending_io = example_io\<lparr>getPendingExposureSummary := Inr (Some [brief_summary])\<rparr>"

section \<open>Properties of the status state machine\<close>

declare keysLoop.simps [simp del]

lemma type_finalize:
  "type (exposureStatus (finalize io u lcp st)) =
     (case type u of None \<Rightarrow> type (exposureStatus st) | Some t \<Rightarrow> t)"
  by (simp add: finalize_def append_status_def Let_def)

lemma summary_finalize:
  "summary (exposureStatus (finalize io u lcp st)) =
     or_else (summary u) (summary (exposureStatus st))"
  by (simp add: finalize_def append_status_def Let_def)

text \<open>
  C3: \<^verbatim>\<open>setToExposed\<close> is the only transition into Exposed. After it the status is
  Exposed, and its summary is the summary the status already had when the prior status
  was Exposed, and the incoming summary otherwise.
\<close>

theorem setToExposed_preserves_active_summary:
  "type (exposureStatus (setToExposed io nextSummary lcp st)) = Exposed \<and>
   summary (exposureStatus (setToExposed io nextSummary lcp st)) =
     (if type (exposureStatus st) = Exposed then summary (exposureStatus st)
      else Some nextSummary)"
  by (cases "summary (exposureStatus st)")
     (auto simp add: setToExposed_def type_finalize summary_finalize
        selectExposureSummary_def empty_partial_def Let_def split: option.splits)

theorem setToExposed_preserves_active_summary_witness:
  "summary (exposureStatus (setToExposed example_io example_summary Undefined
      (example_service\<lparr>exposureStatus := exposed_status older_summary\<rparr>))) = Some older_summary
   \<and> summary (exposureStatus (setToExposed example_io example_summary Undefined example_service))
       = Some example_summary"
  using setToExposed_preserves_active_summary
          [of example_io example_summary Undefined
              "example_service\<lparr>exposureStatus := exposed_status older_summary\<rparr>"]
        setToExposed_preserves_active_summary
          [of example_io example_summary Undefined example_service]
  by (simp add: example_service_def exposed_status_def initial_status_def)

section \<open>Properties of the configuration resolver\<close>

lemma getAlternateExposureConfiguration_eq:
  "getAlternateExposureConfiguration io st =
     Inr (case cachedConfiguration io st of
            Some c \<Rightarrow> c
          | None \<Rightarrow> exposureConfigurationDefault io)"
  by (simp add: getAlternateExposureConfiguration_def cachedConfiguration_def Let_def
        split: option.splits)

text \<open>
  Whatever the remote fetch, the validation, the cache write, the cache read and the
  parsing do, \<^verbatim>\<open>getExposureConfiguration\<close> does not raise: its outcome is a
  configuration, namely the remote one when it was fetched, passed validation and was
  written to the cache, else the cached one when there is a usable cache, else the
  bundled default.
\<close>

theorem getExposureConfiguration_never_raises:
  "fst (getExposureConfiguration io st) =
     Inr (case remoteConfiguration io of
            Some c \<Rightarrow> c
          | None \<Rightarrow>
              (case cachedConfiguration io st of
                 Some c \<Rightarrow> c
               | None \<Rightarrow> exposureConfigurationDefault io))"
  by (simp add: getExposureConfiguration_def remoteConfiguration_def
        getAlternateExposureConfiguration_eq Let_def split: sum.splits option.splits)

text \<open>
  The scenarios: a remote configuration that fails validation with no cache gives the
  bundled default; an unreachable backend with a cache gives the cached configuration;
  a valid remote configuration is returned.
\<close>

theorem getExposureConfiguration_never_raises_witness:
  "fst (getExposureConfiguration
         (example_io\<lparr>backend_getExposureConfiguration := Inr \<lparr>minimumExposureDurationMinutes = - 5\<rparr>\<rparr>)
         example_service) = Inr \<lparr>minimumExposureDurationMinutes = 20\<rparr>
   \<and> fst (getExposureConfiguration
         (example_io\<lparr>backend_getExposureConfiguration := Inl (OtherError ''offline'')\<rparr>)
         (example_service\<lparr>exposureConfigurationItem := Some ''cached''\<rparr>))
       = Inr \<lparr>minimumExposureDurationMinutes = 10\<rparr>
   \<and> fst (getExposureConfiguration example_io example_service)
       = Inr \<lparr>minimumExposureDurationMinutes = 15\<rparr>"
  using getExposureConfiguration_never_raises
          [of "example_io\<lparr>backend_getExposureConfiguration := Inr \<lparr>minimumExposureDurationMinutes = - 5\<rparr>\<rparr>"
              example_service]
        getExposureConfiguration_never_raises
          [of "example_io\<lparr>backend_getExposureConfiguration := Inl (OtherError ''offline'')\<rparr>"
              "example_service\<lparr>exposureConfigurationItem := Some ''cached''\<rparr>"]
        getExposureConfiguration_never_raises [of example_io example_service]
  by (simp add: remoteConfiguration_def cachedConfiguration_def example_io_def example_service_def)

text \<open>
  C7 does not hold of the code. The write of the cache (\<^verbatim>\<open>storage.setItem\<close>) is
  awaited inside the \<^verbatim>\<open>try\<close> block, after the validation: when the storage provider
  rejects it, the remote configuration, fetched and valid, is dropped, and the
  \<^verbatim>\<open>catch\<close> block returns the cached configuration, or the bundled default when
  there is no cache. The resolver still does not raise.
\<close>

theorem getExposureConfiguration_drops_validated_remote:
  "backend_getExposureConfiguration write_fails_io = Inr \<lparr>minimumExposureDurationMinutes = 15\<rparr>
   \<and> schemaValid write_fails_io \<lparr>minimumExposureDurationMinutes = 15\<rparr>
   \<and> fst (getExposureConfiguration write_fails_io
            (example_service\<lparr>exposureConfigurationItem := Some ''cached''\<rparr>))
       = Inr \<lparr>minimumExposureDurationMinutes = 10\<rparr>
   \<and> fst (getExposureConfiguration write_fails_io example_service)
       = Inr \<lparr>minimumExposureDurationMinutes = 20\<rparr>"
  by code_simp

section \<open>Properties of the summary filter\<close>

lemma roundedMinutes_examples:
  "roundedMinutes True example_summary = 16"
  "roundedMinutes True older_summary = 20"
  "roundedMinutes True brief_summary = 0"
  "roundedMinutes False brief_summary = 0"
  by code_simp+

lemma summaryExceedsMinimumMinutes_iff:
  "summaryExceedsMinimumMinutes ios s T \<longleftrightarrow>
     2 \<le> length (attenuationDurations s) \<and> T \<le> roundedMinutes ios s \<and> T \<noteq> 0"
proof (cases "attenuationDurations s")
  case Nil
  then show ?thesis by (simp add: summaryExceedsMinimumMinutes_def)
next
  case (Cons d0 ds)
  then show ?thesis
    by (cases ds) (auto simp add: summaryExceedsMinimumMinutes_def roundedMinutes_def Let_def)
qed

lemma sorted_summariesContainingExposures:
  "sorted_wrt (\<lambda>a b. lastExposureTimestamp b \<le> lastExposureTimestamp a)
     (summariesContainingExposures ios T summaries)"
proof -
  have "sorted (map (\<lambda>s. - lastExposureTimestamp s) (summariesContainingExposures ios T summaries))"
    unfolding summariesContainingExposures_def by (rule sorted_sort_key)
  then show ?thesis by (simp add: sorted_wrt_map)
qed

text \<open>
  C5, as the code has it: for every threshold \<open>T\<close> and summary list, the summaries that
  survive \<^verbatim>\<open>summariesContainingExposures\<close> are those of the list with both buckets
  present whose combined immediate and near duration rounds to \<open>D\<close> minutes with
  \<open>D \<ge> T\<close> and \<open>T \<noteq> 0\<close> (the guard is the truthiness of the threshold, not its
  sign), each as often as it occurs in the list, and they come sorted by descending
  last-exposure timestamp.
\<close>

theorem summariesContainingExposures_filter_sort:
  "mset (summariesContainingExposures ios T summaries) =
     filter_mset (\<lambda>s. 2 \<le> length (attenuationDurations s) \<and> T \<le> roundedMinutes ios s \<and> T \<noteq> 0)
       (mset summaries)
   \<and> sorted_wrt (\<lambda>a b. lastExposureTimestamp b \<le> lastExposureTimestamp a)
       (summariesContainingExposures ios T summaries)"
proof
  have "(\<lambda>s. summaryExceedsMinimumMinutes ios s T) =
        (\<lambda>s. 2 \<le> length (attenuationDurations s) \<and> T \<le> roundedMinutes ios s \<and> T \<noteq> 0)"
    by (rule ext) (rule summaryExceedsMinimumMinutes_iff)
  then show "mset (summariesContainingExposures ios T summaries) =
     filter_mset (\<lambda>s. 2 \<le> length (attenuationDurations s) \<and> T \<le> roundedMinutes ios s \<and> T \<noteq> 0)
       (mset summaries)"
    by (simp add: summariesContainingExposures_def)
next
  show "sorted_wrt (\<lambda>a b. lastExposureTimestamp b \<le> lastExposureTimestamp a)
       (summariesContainingExposures ios T summaries)"
    by (rule sorted_summariesContainingExposures)
qed

theorem summariesContainingExposures_filter_sort_witness:
  "mset (summariesContainingExposures True 15 [older_summary, brief_summary, example_summary]) =
     {#older_summary, example_summary#}
   \<and> sorted_wrt (\<lambda>a b. lastExposureTimestamp b \<le> lastExposureTimestamp a)
       (summariesContainingExposures True 15 [older_summary, brief_summary, example_summary])"
  using summariesContainingExposures_filter_sort
          [of True 15 "[older_summary, brief_summary, example_summary]"]
  by (simp add: roundedMinutes_examples)
     (simp add: older_summary_def brief_summary_def example_summary_def)

text \<open>
  C5 as the spec states it asks for \<open>T > 0\<close>: on the minutes platform, with the
  threshold \<open>-1\<close>, a summary of zero minutes survives.
\<close>

theorem summariesContainingExposures_negative_threshold:
  "brief_summary \<in> set (summariesContainingExposures False (- 1) [brief_summary])
   \<and> \<not> (- 1 \<le> roundedMinutes False brief_summary \<and> (0::int) < - 1)"
  by code_simp

section \<open>Properties of the period key fetcher\<close>

lemma upto_rev_step: "lo < hi \<Longrightarrow> rev [lo + 1 .. hi] = hi # rev [lo + 1 .. hi - 1]"
  by (simp add: upto_rec2)

lemma keysLoop_eq:
  "keysLoop retrieve hi lo = List.map_filter (attempt retrieve) (rev [lo + 1 .. hi])"
proof (induction retrieve hi lo rule: keysLoop.induct)
  case (1 retrieve hi lo)
  show ?case
  proof (cases "hi > lo")
    case True
    show ?thesis
    proof (cases "retrieve hi")
      case (Inl e)
      then have "attempt retrieve hi = None" by (simp add: attempt_def)
      with True Inl 1(1)[OF True Inl] show ?thesis
        by (subst keysLoop.simps) (simp add: upto_rev_step)
    next
      case (Inr u)
      then have "attempt retrieve hi = Some (u, hi)" by (simp add: attempt_def)
      with True Inr 1(2)[OF True Inr] show ?thesis
        by (subst keysLoop.simps) (simp add: upto_rev_step)
    qed
  next
    case False
    then show ?thesis by (subst keysLoop.simps) simp
  qed
qed

lemma map_filter_attempt_periods:
  "map snd (List.map_filter (attempt retrieve) ps) = filter (\<lambda>p. \<not> isl (retrieve p)) ps"
  by (induction ps) (auto simp add: attempt_def split: sum.splits)

lemma keysSinceLastFetch_Num:
  "n \<noteq> 0 \<Longrightarrow> keysSinceLastFetch io (Num n) =
     List.map_filter (attempt (retrieveDiagnosisKeys io))
       (rev [lookbackBound io n + 1 .. currentPeriod io])"
  by (simp add: keysSinceLastFetch_def keysLoop_eq lookbackBound_def currentPeriod_def
        EXPOSURE_NOTIFICATION_CYCLE_def Let_def)

lemma keysSinceLastFetch_falsy:
  "\<not> truthy lcp \<Longrightarrow> keysSinceLastFetch io lcp =
     (case retrieveDiagnosisKeys io 0 of
        Inr u \<Rightarrow> [(u, currentPeriod io)]
      | Inl e \<Rightarrow> [])"
  by (simp add: keysSinceLastFetch_def currentPeriod_def Let_def split: sum.splits)

text \<open>
  C6, as the code has it: with a numeric checkpoint \<open>n\<close> (not 0) the fetcher attempts
  the periods from the current one down to the one just above
  \<^verbatim>\<open>max(n - 1, currentPeriod - 14)\<close>, in that order, and yields the pair of every
  attempt that succeeds: a failed download is skipped and the older periods are still
  attempted. So the yielded periods are strictly decreasing and lie above the bound.
  With no checkpoint (an absent or zero period) it makes a single download, requested
  from the backend with the argument 0 and yielded under the current period, or yields
  nothing when that download fails.
\<close>

theorem keysSinceLastFetch_window:
  "(n \<noteq> 0 \<longrightarrow>
      keysSinceLastFetch io (Num n) =
        List.map_filter (attempt (retrieveDiagnosisKeys io))
          (rev [lookbackBound io n + 1 .. currentPeriod io])
      \<and> sorted_wrt (\<lambda>p q. q < p) (map snd (keysSinceLastFetch io (Num n)))
      \<and> (\<forall>p \<in> snd ` set (keysSinceLastFetch io (Num n)).
            lookbackBound io n < p \<and> p \<le> currentPeriod io))
   \<and> (\<not> truthy lcp \<longrightarrow>
        keysSinceLastFetch io lcp =
          (case retrieveDiagnosisKeys io 0 of
             Inr u \<Rightarrow> [(u, currentPeriod io)]
           | Inl e \<Rightarrow> []))"
proof (intro conjI impI)
  assume n: "n \<noteq> 0"
  show eq: "keysSinceLastFetch io (Num n) =
        List.map_filter (attempt (retrieveDiagnosisKeys io))
          (rev [lookbackBound io n + 1 .. currentPeriod io])"
    using n by (rule keysSinceLastFetch_Num)
  have periods: "map snd (keysSinceLastFetch io (Num n)) =
      filter (\<lambda>p. \<not> isl (retrieveDiagnosisKeys io p))
        (rev [lookbackBound io n + 1 .. currentPeriod io])"
    by (simp only: eq map_filter_attempt_periods)
  have "sorted_wrt (\<lambda>p q. q < p) (rev [lookbackBound io n + 1 .. currentPeriod io])"
    by (simp add: sorted_wrt_rev)
  then show "sorted_wrt (\<lambda>p q. q < p) (map snd (keysSinceLastFetch io (Num n)))"
    unfolding periods by (rule sorted_wrt_filter)
  have "set (map snd (keysSinceLastFetch io (Num n)))
          \<subseteq> set (rev [lookbackBound io n + 1 .. currentPeriod io])"
    unfolding periods by auto
  then show "\<forall>p \<in> snd ` set (keysSinceLastFetch io (Num n)).
            lookbackBound io n < p \<and> p \<le> currentPeriod io"
    by auto
next
  assume "\<not> truthy lcp"
  then show "keysSinceLastFetch io lcp =
          (case retrieveDiagnosisKeys io 0 of
             Inr u \<Rightarrow> [(u, currentPeriod io)]
           | Inl e \<Rightarrow> [])"
    by (rule keysSinceLastFetch_falsy)
qed

lemma io_19_window:
  "List.map_filter (attempt (retrieveDiagnosisKeys io_19))
          (rev [lookbackBound io_19 18518 + 1 .. currentPeriod io_19])
   = [(''batch-18520'', 18520), (''batch-18518'', 18518)]"
  by code_simp

lemma io_19_currentPeriod: "currentPeriod io_19 = 18520"
  by code_simp

lemma io_19_bootstrap: "retrieveDiagnosisKeys io_19 0 = Inr ''batch-0''"
  by (simp add: io_19_def example_io_def example_url_def)

text \<open>
  With the checkpoint at 18518 in period 18520 and the download of 18519 failing, the
  fetcher yields 18520 and 18518; with no checkpoint it yields the one bootstrap batch.
\<close>

theorem keysSinceLastFetch_window_witness:
  "keysSinceLastFetch io_19 (Num 18518) = [(''batch-18520'', 18520), (''batch-18518'', 18518)]
   \<and> keysSinceLastFetch io_19 Undefined = [(''batch-0'', 18520)]"
proof -
  from keysSinceLastFetch_window [of 18518 io_19 Undefined]
  have "keysSinceLastFetch io_19 (Num 18518) =
          List.map_filter (attempt (retrieveDiagnosisKeys io_19))
            (rev [lookbackBound io_19 18518 + 1 .. currentPeriod io_19])"
    and "keysSinceLastFetch io_19 Undefined =
          (case retrieveDiagnosisKeys io_19 0 of
             Inr u \<Rightarrow> [(u, currentPeriod io_19)]
           | Inl e \<Rightarrow> [])"
    by simp_all
  then have "keysSinceLastFetch io_19 (Num 18518) =
          [(''batch-18520'', 18520), (''batch-18518'', 18518)]"
    and "keysSinceLastFetch io_19 Undefined = [(''batch-0'', currentPeriod io_19)]"
    by (simp_all only: io_19_window io_19_bootstrap sum.case)
  then show ?thesis
    by (simp only: io_19_currentPeriod simp_thms)
qed

text \<open>
  C6 as the spec states it has the bootstrap fetch the current period's batch. In
  period 18520 the backend is asked for the batch of the argument 0, not for the batch
  of 18520, and the handle it returns for 0 is yielded under the period 18520.
\<close>

theorem keysSinceLastFetch_bootstrap_requests_zero:
  "currentPeriod example_io = 18520
   \<and> retrieveDiagnosisKeys example_io 18520 = Inr ''batch-18520''
   \<and> retrieveDiagnosisKeys example_io 0 = Inr ''batch-0''
   \<and> keysSinceLastFetch example_io Undefined = [(''batch-0'', 18520)]
   \<and> map fst (keysSinceLastFetch example_io Undefined) \<noteq> [''batch-18520'']"
  by code_simp

section \<open>Properties of the key submission\<close>

lemma recordKeySubmission_Diagnosed:
  "type (exposureStatus st) = Diagnosed \<Longrightarrow>
     needsSubmission (exposureStatus (recordKeySubmission today st)) = Some False \<and>
     submissionLastCompletedAt (exposureStatus (recordKeySubmission today st)) = Some today"
  by (simp add: recordKeySubmission_def append_status_def empty_partial_def Let_def)

text \<open>
  C9, as the code has it: \<^verbatim>\<open>fetchAndSubmitKeys\<close> fails with the bad-certificate error
  exactly when no credential is stored; it fails with \<^verbatim>\<open>cannotGetTEKsError\<close> exactly
  when it asks the framework for the keys and that fails; when the framework returns
  no keys the run succeeds and uploads nothing; and every run that succeeds ends with
  \<^verbatim>\<open>recordKeySubmission\<close>, whether or not keys were uploaded, which records the
  completion when the status is Diagnosed and does nothing otherwise.
\<close>

theorem fetchAndSubmitKeys_outcomes:
  "(fst (fetchAndSubmitKeys io info st) = Inl BadCertificate \<longleftrightarrow> noCredentialStored io)
   \<and> (fst (fetchAndSubmitKeys io info st) = Inl cannotGetTEKsError \<longleftrightarrow>
        GetTemporaryExposureKeyHistory \<in> set (fst (snd (fetchAndSubmitKeys io info st)))
        \<and> isl (getTemporaryExposureKeyHistory io))
   \<and> (GetTemporaryExposureKeyHistory \<in> set (fst (snd (fetchAndSubmitKeys io info st)))
        \<and> getTemporaryExposureKeyHistory io = Inr [] \<longrightarrow>
          fst (fetchAndSubmitKeys io info st) = Inr ()
          \<and> \<not> list_ex is_upload (fst (snd (fetchAndSubmitKeys io info st))))
   \<and> (fst (fetchAndSubmitKeys io info st) = Inr () \<longrightarrow>
        snd (snd (fetchAndSubmitKeys io info st))
          = recordKeySubmission (submit_currentDate io) st)
   \<and> (fst (fetchAndSubmitKeys io info st) = Inr () \<and> type (exposureStatus st) = Diagnosed \<longrightarrow>
        needsSubmission (exposureStatus (snd (snd (fetchAndSubmitKeys io info st)))) = Some False
        \<and> submissionLastCompletedAt (exposureStatus (snd (snd (fetchAndSubmitKeys io info st))))
            = Some (submit_currentDate io))
   \<and> (fst (fetchAndSubmitKeys io info st) = Inr () \<and> type (exposureStatus st) \<noteq> Diagnosed \<longrightarrow>
        snd (snd (fetchAndSubmitKeys io info st)) = st)"
  apply (intro conjI)
       apply (simp add: fetchAndSubmitKeys_def noCredentialStored_def
                split: sum.splits option.splits)
      apply (auto simp add: fetchAndSubmitKeys_def
                split: sum.splits option.splits if_splits)[1]
     apply (auto simp add: fetchAndSubmitKeys_def
                split: sum.splits option.splits if_splits)[1]
    apply (auto simp add: fetchAndSubmitKeys_def
                split: sum.splits option.splits if_splits)[1]
   apply (auto simp add: fetchAndSubmitKeys_def recordKeySubmission_Diagnosed
                split: sum.splits option.splits if_splits)[1]
  apply (auto simp add: fetchAndSubmitKeys_def recordKeySubmission_def
                split: sum.splits option.splits if_splits)[1]
  done

text \<open>
  The scenario of the spec: the framework returns an empty key list while the status
  is Diagnosed. The run succeeds, uploads nothing and records the completion.
\<close>

theorem fetchAndSubmitKeys_outcomes_witness:
  "fst (fetchAndSubmitKeys example_submit_io () diagnosed_service) = Inr ()
   \<and> fst (snd (fetchAndSubmitKeys example_submit_io () diagnosed_service))
       = [GetTemporaryExposureKeyHistory]
   \<and> needsSubmission (exposureStatus
        (snd (snd (fetchAndSubmitKeys example_submit_io () diagnosed_service)))) = Some False
   \<and> submissionLastCompletedAt (exposureStatus
        (snd (snd (fetchAndSubmitKeys example_submit_io () diagnosed_service))))
       = Some 1600131600000"
  using fetchAndSubmitKeys_outcomes [of example_submit_io "()" diagnosed_service]
  by (simp add: fetchAndSubmitKeys_def example_submit_io_def diagnosed_service_def
        diagnosed_status_def example_service_def initial_status_def recordKeySubmission_def
        append_status_def empty_partial_def)

text \<open>
  C9 as the spec states it has every successful run record the completion. A run from
  a Monitoring status, with one key uploaded, succeeds and records nothing.
\<close>

theorem fetchAndSubmitKeys_not_diagnosed:
  "fst (fetchAndSubmitKeys
          (example_submit_io\<lparr>getTemporaryExposureKeyHistory := Inr [7]\<rparr>) () example_service)
     = Inr ()
   \<and> fst (snd (fetchAndSubmitKeys
          (example_submit_io\<lparr>getTemporaryExposureKeyHistory := Inr [7]\<rparr>) () example_service))
       = [GetTemporaryExposureKeyHistory, ReportDiagnosisKeys ''credential'' [7] ()]
   \<and> snd (snd (fetchAndSubmitKeys
          (example_submit_io\<lparr>getTemporaryExposureKeyHistory := Inr [7]\<rparr>) () example_service))
       = example_service
   \<and> needsSubmission (exposureStatus example_service) = None
   \<and> submissionLastCompletedAt (exposureStatus example_service) = None"
  by (simp add: fetchAndSubmitKeys_def example_submit_io_def example_service_def
        initial_status_def recordKeySubmission_def)

section \<open>Properties of the exposure check\<close>

lemma append_only_lastChecked:
  "append_status s (empty_partial\<lparr>lastChecked := Some x\<rparr>) = s\<lparr>lastChecked := Some x\<rparr>"
  by (simp add: append_status_def empty_partial_def)

lemma finalize_as_is:
  "finalize io empty_partial Undefined st =
     st\<lparr>exposureStatus := restamped (currentDate io) (exposureStatus st)\<rparr>"
  by (simp add: finalize_def Let_def append_only_lastChecked restamped_def)
     (simp add: empty_partial_def js_or_def)

lemma getExposureConfiguration_state:
  "\<exists>x. snd (getExposureConfiguration io st) = st\<lparr>exposureConfigurationItem := x\<rparr>"
proof (cases "remoteConfiguration io")
  case None
  then have "snd (getExposureConfiguration io st) = st"
    by (auto simp add: getExposureConfiguration_def remoteConfiguration_def Let_def
          split: sum.splits option.splits if_splits)
  then have "snd (getExposureConfiguration io st) = st\<lparr>exposureConfigurationItem := exposureConfigurationItem st\<rparr>"
    by simp
  then show ?thesis ..
next
  case (Some c)
  then have "snd (getExposureConfiguration io st) = st\<lparr>exposureConfigurationItem := Some (JSON_stringify io c)\<rparr>"
    by (auto simp add: getExposureConfiguration_def remoteConfiguration_def Let_def
          split: sum.splits option.splits if_splits)
  then show ?thesis ..
qed

lemma finalize_frame:
  "finalize io u lcp (st\<lparr>exposureConfigurationItem := x\<rparr>) =
     (finalize io u lcp st)\<lparr>exposureConfigurationItem := x\<rparr>"
  by (simp add: finalize_def Let_def)

lemma getStoredLastExposureTimestamp_frame:
  "getStoredLastExposureTimestamp io (st\<lparr>exposureConfigurationItem := x\<rparr>) =
     (fst (getStoredLastExposureTimestamp io st),
      (snd (getStoredLastExposureTimestamp io st))\<lparr>exposureConfigurationItem := x\<rparr>)"
  by (simp add: getStoredLastExposureTimestamp_def Let_def split: option.splits)

lemma updateExposure_frame:
  "updateExposure io (st\<lparr>exposureConfigurationItem := x\<rparr>) =
     (fst (updateExposure io st), (snd (updateExposure io st))\<lparr>exposureConfigurationItem := x\<rparr>)"
  by (simp add: updateExposure_def Let_def setToMonitoring_def finalize_frame
        getStoredLastExposureTimestamp_frame calculateNeedsSubmission_def
        split: ExposureStatusType.splits option.splits sum.splits prod.splits)


lemma updateExposure_throws_state:
  "isl (fst (updateExposure io st)) \<Longrightarrow> snd (updateExposure io st) = st"
  by (auto simp add: updateExposure_def Let_def getStoredLastExposureTimestamp_def
        split: ExposureStatusType.splits option.splits sum.splits prod.splits if_splits)

lemma getSummariesFromEnFramework_no_pending:
  assumes "noPendingSummary io"
  shows "getSummariesFromEnFramework io cfg st =
     (case updateExposure io st of
        (Inl e, st') \<Rightarrow> (([], Null), st')
      | (Inr u, st') \<Rightarrow>
          (case detectExposure io cfg (fst (getKeys io (lastChecked (exposureStatus st)))) of
             Inl e \<Rightarrow> (([], Null), st')
           | Inr summaries \<Rightarrow>
               ((summaries,
                 (case snd (getKeys io (lastChecked (exposureStatus st))) of
                    None \<Rightarrow> Undefined
                  | Some c \<Rightarrow> Obj c)), st')))"
  using assms unfolding noPendingSummary_def
  by (auto simp add: getSummariesFromEnFramework_def Let_def split_def
        split: prod.splits sum.splits)

lemma pipelineThrows_cases:
  "pipelineThrows io st \<longleftrightarrow>
     isl (getPendingExposureSummary io)
     \<or> noPendingSummary io \<and>
        (isl (fst (updateExposure io st))
         \<or> isl (detectExposure io (resolvedConfiguration io st)
                  (fst (getKeys io (lastChecked (exposureStatus st))))))"
  by (auto simp add: pipelineThrows_def noPendingSummary_def
        split: sum.splits option.splits list.splits)

lemma getSummariesFromEnFramework_throws:
  assumes "pipelineThrows io st"
  shows "getSummariesFromEnFramework io (resolvedConfiguration io st)
           (st\<lparr>exposureConfigurationItem := x\<rparr>) =
         (([], Null),
          (if isl (getPendingExposureSummary io) then st else snd (updateExposure io st))
            \<lparr>exposureConfigurationItem := x\<rparr>)"
proof (cases "isl (getPendingExposureSummary io)")
  case True
  then show ?thesis
    by (cases "getPendingExposureSummary io") (simp_all add: getSummariesFromEnFramework_def)
next
  case False
  with assms have np: "noPendingSummary io"
    and throws: "isl (fst (updateExposure io st))
         \<or> isl (detectExposure io (resolvedConfiguration io st)
                  (fst (getKeys io (lastChecked (exposureStatus st)))))"
    by (simp_all add: pipelineThrows_cases)
  show ?thesis
  proof (cases "fst (updateExposure io st)")
    case (Inl e)
    with False show ?thesis
      by (simp add: getSummariesFromEnFramework_no_pending [OF np] updateExposure_frame)
  next
    case (Inr u)
    with throws obtain e where
      "detectExposure io (resolvedConfiguration io st)
         (fst (getKeys io (lastChecked (exposureStatus st)))) = Inl e"
      by (cases "detectExposure io (resolvedConfiguration io st)
         (fst (getKeys io (lastChecked (exposureStatus st))))") auto
    with Inr False show ?thesis
      by (simp add: getSummariesFromEnFramework_no_pending [OF np] updateExposure_frame)
  qed
qed

lemma getExposureConfiguration_result:
  "fst (getExposureConfiguration io st) = Inr (resolvedConfiguration io st)"
  by (simp add: getExposureConfiguration_def remoteConfiguration_def resolvedConfiguration_def
        getAlternateExposureConfiguration_eq Let_def split: sum.splits option.splits)

lemma summariesContainingExposures_Nil [simp]:
  "summariesContainingExposures ios T [] = []"
  by (simp add: summariesContainingExposures_def)

lemma performExposureCheck_throws:
  assumes "pipelineThrows io st"
  shows "fst (performExposureCheck io st) = Inr () \<and>
         exposureStatus (snd (performExposureCheck io st)) =
           restamped (currentDate io)
             (exposureStatus
                (if isl (getPendingExposureSummary io) then st else snd (updateExposure io st)))"
proof -
  obtain x where st1: "snd (getExposureConfiguration io st) = st\<lparr>exposureConfigurationItem := x\<rparr>"
    using getExposureConfiguration_state by blast
  have cfg: "getExposureConfiguration io st =
      (Inr (resolvedConfiguration io st), st\<lparr>exposureConfigurationItem := x\<rparr>)"
    using st1 getExposureConfiguration_result [of io st]
    by (cases "getExposureConfiguration io st") simp
  show ?thesis
    by (simp add: performExposureCheck_def cfg getSummariesFromEnFramework_throws [OF assms]
          finalize_as_is)
qed

lemma js_or_idem: "js_or (js_or a (Num 0)) (Num 0) = js_or a (Num 0)"
  by (simp add: js_or_def)

lemma lastChecked_finalize_Undefined:
  "lastChecked u = None \<Longrightarrow>
   lastChecked (exposureStatus (finalize io u Undefined st)) =
     Some (LastChecked (currentDate io)
            (js_or (optional_period (lastChecked (exposureStatus st))) (Num 0)))"
  by (simp add: finalize_def append_status_def Let_def js_or_def)

lemma getStoredLastExposureTimestamp_status:
  "exposureStatus (snd (getStoredLastExposureTimestamp io st)) = exposureStatus st"
  by (simp add: getStoredLastExposureTimestamp_def Let_def split: option.splits)

lemma updateExposure_period:
  "js_or (optional_period (lastChecked (exposureStatus (snd (updateExposure io st))))) (Num 0)
     = js_or (optional_period (lastChecked (exposureStatus st))) (Num 0)"
proof (cases "type (exposureStatus st)")
  case Monitoring
  then show ?thesis by (simp add: updateExposure_def)
next
  case Diagnosed
  then show ?thesis
    by (simp add: updateExposure_def setToMonitoring_def lastChecked_finalize_Undefined
          empty_partial_def js_or_idem Let_def)
next
  case Exposed
  have st': "exposureStatus (snd (getStoredLastExposureTimestamp io st)) = exposureStatus st"
    by (rule getStoredLastExposureTimestamp_status)
  show ?thesis
  proof (cases "getStoredLastExposureTimestamp io st")
    case (Pair r st')
    with st' have eq: "exposureStatus st' = exposureStatus st" by simp
    show ?thesis
      using Exposed Pair eq
      by (cases r)
         (auto simp add: updateExposure_def setToMonitoring_def lastChecked_finalize_Undefined
            empty_partial_def js_or_idem Let_def split: option.splits)
  qed
qed

lemma lastChecked_restamped:
  "optional_period (lastChecked (restamped today s)) = js_or (optional_period (lastChecked s)) (Num 0)"
  by (simp add: restamped_def)

text \<open>
  C2, as the code has it: when an exception occurs inside the check pipeline the check
  itself does not fail, and it finalizes the status as it stands. The status is the
  one before the check when the pending-summary query or the maintenance step threw,
  and the one the maintenance step left when the detection threw after it; in both
  cases the checkpoint is re-stamped with the time of the check, and its period stays
  where it was (0 when there was none).
\<close>

theorem failed_check_finalizes_as_is:
  "pipelineThrows io st \<Longrightarrow>
     fst (performExposureCheck io st) = Inr ()
     \<and> exposureStatus (snd (performExposureCheck io st)) =
         restamped (currentDate io)
           (exposureStatus
              (if isl (getPendingExposureSummary io) then st else snd (updateExposure io st)))
     \<and> (isl (getPendingExposureSummary io) \<or> isl (fst (updateExposure io st)) \<longrightarrow>
          exposureStatus (snd (performExposureCheck io st))
            = restamped (currentDate io) (exposureStatus st))
     \<and> optional_period (lastChecked (exposureStatus (snd (performExposureCheck io st))))
         = js_or (optional_period (lastChecked (exposureStatus st))) (Num 0)"
proof -
  assume throws: "pipelineThrows io st"
  note main = performExposureCheck_throws [OF throws]
  have a: "fst (performExposureCheck io st) = Inr ()" using main by simp
  have b: "exposureStatus (snd (performExposureCheck io st)) =
         restamped (currentDate io)
           (exposureStatus
              (if isl (getPendingExposureSummary io) then st else snd (updateExposure io st)))"
    using main by simp
  have c: "isl (getPendingExposureSummary io) \<or> isl (fst (updateExposure io st)) \<longrightarrow>
          exposureStatus (snd (performExposureCheck io st))
            = restamped (currentDate io) (exposureStatus st)"
    using b by (auto simp add: updateExposure_throws_state)
  have d: "optional_period (lastChecked (exposureStatus (snd (performExposureCheck io st))))
         = js_or (optional_period (lastChecked (exposureStatus st))) (Num 0)"
    unfolding b lastChecked_restamped by (simp add: updateExposure_period)
  from a b c d show ?thesis by simp
qed

lemma pending_fails_throws: "pipelineThrows pending_fails_io checked_service"
  by (simp add: pipelineThrows_def pending_fails_io_def)

text \<open>
  The pending-summary query fails on a Monitoring status with checkpoint 18518: the
  status keeps its fields and its period, and the checkpoint's time is the time of the
  check.
\<close>

theorem failed_check_finalizes_as_is_witness:
  "pipelineThrows pending_fails_io checked_service
   \<and> fst (performExposureCheck pending_fails_io checked_service) = Inr ()
   \<and> exposureStatus (snd (performExposureCheck pending_fails_io checked_service)) =
       initial_status\<lparr>lastChecked := Some (LastChecked 1600131600000 (Num 18518))\<rparr>"
  using failed_check_finalizes_as_is [OF pending_fails_throws] pending_fails_throws
  by (simp add: pending_fails_io_def checked_service_def example_io_def example_service_def
        restamped_def js_or_def)

text \<open>
  C2 as the spec states it leaves the status unchanged. In the check above the status
  after the check differs from the status before it (the checkpoint's timestamp); and
  when the detection fails on a diagnosis whose cycle has ended, the maintenance step
  has already moved the status to Monitoring.
\<close>

theorem failed_check_changes_status:
  "pipelineThrows pending_fails_io checked_service
   \<and> exposureStatus (snd (performExposureCheck pending_fails_io checked_service))
       \<noteq> exposureStatus checked_service
   \<and> pipelineThrows detect_fails_io cycle_ended_service
   \<and> type (exposureStatus cycle_ended_service) = Diagnosed
   \<and> type (exposureStatus (snd (performExposureCheck detect_fails_io cycle_ended_service)))
       = Monitoring"
  by code_simp

section \<open>Properties of the maintenance step\<close>

text \<open>
  The maintenance step runs in a check only when the platform has queued no pending
  summary. The check then ends with the status type that step left, unless its
  detection run finds a qualifying exposure and the check ends Exposed.
\<close>

lemma type_restamped: "type (restamped today s) = type s"
  by (simp add: restamped_def)

lemma type_setToExposed: "type (exposureStatus (setToExposed io s lcp st)) = Exposed"
  by (simp add: setToExposed_def type_finalize empty_partial_def Let_def)

lemma performExposureCheck_type_no_pending:
  assumes "noPendingSummary io" and "fst (updateExposure io st) = Inr u"
  shows "type (exposureStatus (snd (performExposureCheck io st))) =
           (if detectedExposures io st = []
            then type (exposureStatus (snd (updateExposure io st)))
            else Exposed)"
proof -
  obtain x where st1: "snd (getExposureConfiguration io st) = st\<lparr>exposureConfigurationItem := x\<rparr>"
    using getExposureConfiguration_state by blast
  have cfg: "getExposureConfiguration io st =
      (Inr (resolvedConfiguration io st), st\<lparr>exposureConfigurationItem := x\<rparr>)"
    using st1 getExposureConfiguration_result [of io st]
    by (cases "getExposureConfiguration io st") simp
  show ?thesis
    using assms(2)
    by (cases "updateExposure io st")
       (auto simp add: performExposureCheck_def cfg detectedExposures_def
          getSummariesFromEnFramework_no_pending [OF assms(1)] updateExposure_frame
          finalize_as_is type_restamped type_setToExposed
          split: sum.splits list.splits)
qed

lemma example_io_no_pending: "noPendingSummary example_io"
  by (simp add: noPendingSummary_def example_io_def)

lemma example_io_detects_nothing: "detectedExposures example_io st = []"
  by (simp add: detectedExposures_def example_io_def)

text \<open>
  C1, as the code has it: for every Diagnosed status whose cycle has ended on the
  device's calendar, \<^verbatim>\<open>daysBetween(today, cycleEndsAt) <= 0\<close>, the maintenance step of
  the check sets the status to Monitoring, whatever the other fields are. A check runs
  that step when the platform has queued no pending summary, and then ends in
  Monitoring, or in Exposed when its detection run finds a qualifying exposure.
\<close>

theorem updateExposure_Diagnosed_cycle_ended:
  "type (exposureStatus st) = Diagnosed \<Longrightarrow> cycleEndsAt (exposureStatus st) = Some c \<Longrightarrow>
   daysBetween io (currentDate io) c \<le> 0 \<Longrightarrow>
     fst (updateExposure io st) = Inr ()
     \<and> type (exposureStatus (snd (updateExposure io st))) = Monitoring
     \<and> (noPendingSummary io \<longrightarrow>
          type (exposureStatus (snd (performExposureCheck io st))) =
            (if detectedExposures io st = [] then Monitoring else Exposed))"
proof -
  assume "type (exposureStatus st) = Diagnosed" "cycleEndsAt (exposureStatus st) = Some c"
    "daysBetween io (currentDate io) c \<le> 0"
  then have step: "fst (updateExposure io st) = Inr ()"
      "type (exposureStatus (snd (updateExposure io st))) = Monitoring"
    by (simp_all add: updateExposure_def setToMonitoring_def type_finalize empty_partial_def
          Let_def)
  then show ?thesis
    by (simp add: performExposureCheck_type_no_pending)
qed

lemma cycle_ended_service_facts:
  "type (exposureStatus cycle_ended_service) = Diagnosed"
  "cycleEndsAt (exposureStatus cycle_ended_service) = Some 1600100000000"
  "daysBetween example_io (currentDate example_io) 1600100000000 \<le> 0"
  by code_simp+

theorem updateExposure_Diagnosed_cycle_ended_witness:
  "daysBetween example_io (currentDate example_io) 1600100000000 \<le> 0
   \<and> fst (updateExposure example_io cycle_ended_service) = Inr ()
   \<and> type (exposureStatus (snd (updateExposure example_io cycle_ended_service))) = Monitoring
   \<and> type (exposureStatus (snd (performExposureCheck example_io cycle_ended_service)))
       = Monitoring"
  using updateExposure_Diagnosed_cycle_ended [OF cycle_ended_service_facts]
        cycle_ended_service_facts(3) example_io_no_pending
        example_io_detects_nothing [of cycle_ended_service]
  by simp

text \<open>
  C1 as the spec states it tests the end of the cycle in UTC, on every check. For the
  second diagnosis the cycle has ended in UTC, \<^verbatim>\<open>daysBetweenUTC(today, cycleEndsAt) =
  0\<close>, but not on the device's calendar: the maintenance step, and the whole check,
  leave the status Diagnosed. For the first diagnosis the cycle has ended on both
  calendars, but with a pending summary queued the check skips the maintenance step
  and leaves the status Diagnosed.
\<close>

theorem updateExposure_cycle_ended_in_UTC_only:
  "type (exposureStatus cycle_ended_utc_service) = Diagnosed
   \<and> cycleEndsAt (exposureStatus cycle_ended_utc_service) = Some 1600149600000
   \<and> daysBetweenUTC example_io (currentDate example_io) 1600149600000 \<le> 0
   \<and> daysBetween example_io (currentDate example_io) 1600149600000 = 1
   \<and> type (exposureStatus (snd (updateExposure example_io cycle_ended_utc_service))) = Diagnosed
   \<and> type (exposureStatus (snd (performExposureCheck example_io cycle_ended_utc_service)))
       = Diagnosed
   \<and> daysBetweenUTC pending_io (currentDate pending_io) 1600100000000 \<le> 0
   \<and> daysBetween pending_io (currentDate pending_io) 1600100000000 \<le> 0
   \<and> type (exposureStatus (snd (performExposureCheck pending_io cycle_ended_service)))
       = Diagnosed"
  by code_simp

text \<open>
  C8, as the code has it: for every Exposed status with a durable last-exposure
  timestamp, the maintenance step of the check sets the status to Monitoring if and
  only if the read of that timestamp succeeds and \<^verbatim>\<open>daysBetween\<close>, the day count on
  the device's calendar from the timestamp to today, is 14 or more. Otherwise it
  leaves the service as it is: below 14 days, and also when the read fails, where the
  step throws. A check runs that step when the platform has queued no pending summary,
  and then ends in Monitoring if and only if the step set it and the detection run
  finds no qualifying exposure.
\<close>

theorem updateExposure_Exposed_ages_out:
  "type (exposureStatus st) = Exposed \<Longrightarrow> lastExposureTimestampItem st = Some t \<Longrightarrow>
     (fst (updateExposure io st) = Inr () \<longleftrightarrow> AsyncStorage_getItem_error io = None)
     \<and> (type (exposureStatus (snd (updateExposure io st))) = Monitoring
          \<longleftrightarrow> AsyncStorage_getItem_error io = None
              \<and> 14 \<le> daysBetween io t (currentDate io))
     \<and> (\<not> (AsyncStorage_getItem_error io = None \<and> 14 \<le> daysBetween io t (currentDate io))
          \<longrightarrow> snd (updateExposure io st) = st)
     \<and> (noPendingSummary io \<longrightarrow>
          (type (exposureStatus (snd (performExposureCheck io st))) = Monitoring
            \<longleftrightarrow> AsyncStorage_getItem_error io = None
                \<and> 14 \<le> daysBetween io t (currentDate io)
                \<and> detectedExposures io st = []))"
proof (cases "AsyncStorage_getItem_error io")
  case None
  assume "type (exposureStatus st) = Exposed" "lastExposureTimestampItem st = Some t"
  with None have step: "fst (updateExposure io st) = Inr ()"
      "type (exposureStatus (snd (updateExposure io st))) = Monitoring
          \<longleftrightarrow> 14 \<le> daysBetween io t (currentDate io)"
      "\<not> 14 \<le> daysBetween io t (currentDate io) \<longrightarrow> snd (updateExposure io st) = st"
    by (simp_all add: updateExposure_def getStoredLastExposureTimestamp_def setToMonitoring_def
        type_finalize empty_partial_def EXPOSURE_NOTIFICATION_CYCLE_def Let_def)
  with None show ?thesis
    by (simp add: performExposureCheck_type_no_pending)
next
  case (Some e)
  assume exposed: "type (exposureStatus st) = Exposed"
    and "lastExposureTimestampItem st = Some t"
  with Some have step: "fst (updateExposure io st) = Inl (Thrown e)"
      "snd (updateExposure io st) = st"
    by (simp_all add: updateExposure_def getStoredLastExposureTimestamp_def Let_def)
  have check: "noPendingSummary io \<longrightarrow>
      type (exposureStatus (snd (performExposureCheck io st))) = Exposed"
  proof
    assume "noPendingSummary io"
    with step have throws: "pipelineThrows io st"
      by (simp add: pipelineThrows_cases)
    have "\<not> isl (getPendingExposureSummary io)"
      using \<open>noPendingSummary io\<close> by (auto simp add: noPendingSummary_def)
    with performExposureCheck_throws [OF throws] step exposed
    show "type (exposureStatus (snd (performExposureCheck io st))) = Exposed"
      by (simp add: type_restamped)
  qed
  from Some step check exposed show ?thesis
    by auto
qed

lemma exposed_service_facts:
  "type (exposureStatus (exposed_service t)) = Exposed"
  "lastExposureTimestampItem (exposed_service t) = Some t"
  by (simp_all add: exposed_service_def exposed_status_def)

lemma exposed_service_days:
  "daysBetween example_io 1598922000000 (currentDate example_io) = 14"
  "daysBetween example_io 1599008400000 (currentDate example_io) = 13"
  "AsyncStorage_getItem_error example_io = None"
  by code_simp+

text \<open>An exposure exactly 14 days old ages out; one 13 days old does not.\<close>

theorem updateExposure_Exposed_ages_out_witness:
  "daysBetween example_io 1598922000000 (currentDate example_io) = 14
   \<and> type (exposureStatus (snd (updateExposure example_io (exposed_service 1598922000000))))
       = Monitoring
   \<and> type (exposureStatus (snd (performExposureCheck example_io (exposed_service 1598922000000))))
       = Monitoring
   \<and> daysBetween example_io 1599008400000 (currentDate example_io) = 13
   \<and> snd (updateExposure example_io (exposed_service 1599008400000))
       = exposed_service 1599008400000
   \<and> type (exposureStatus (snd (performExposureCheck example_io (exposed_service 1599008400000))))
       \<noteq> Monitoring"
  using updateExposure_Exposed_ages_out
          [of "exposed_service 1598922000000" 1598922000000 example_io, OF exposed_service_facts]
        updateExposure_Exposed_ages_out
          [of "exposed_service 1599008400000" 1599008400000 example_io, OF exposed_service_facts]
        example_io_no_pending
        example_io_detects_nothing [of "exposed_service 1598922000000"]
  by (simp add: exposed_service_days)

text \<open>
  C8 as the spec states it has every check age the exposure out. With a pending
  summary queued the check skips the maintenance step, and when the read of the
  durable timestamp fails the step throws: in both checks an exposure 24 days old
  stays Exposed.
\<close>

theorem performExposureCheck_pending_skips_aging:
  "type (exposureStatus (exposed_service 1598000000000)) = Exposed
   \<and> lastExposureTimestampItem (exposed_service 1598000000000) = Some 1598000000000
   \<and> daysBetween pending_io 1598000000000 (currentDate pending_io) = 24
   \<and> type (exposureStatus (snd (performExposureCheck pending_io (exposed_service 1598000000000))))
       = Exposed
   \<and> daysBetween read_fails_io 1598000000000 (currentDate read_fails_io) = 24
   \<and> type (exposureStatus (snd (updateExposure read_fails_io (exposed_service 1598000000000))))
       = Exposed
   \<and> type (exposureStatus
        (snd (performExposureCheck read_fails_io (exposed_service 1598000000000))))
       = Exposed"
  by code_simp

section \<open>The checkpoint candidate of the consumer\<close>

lemma getKeys_returns_argument: "snd (getKeys io lc) = lc"
  by (simp add: getKeys_def Let_def split_def)

text \<open>
  C4 does not hold of the code. \<^verbatim>\<open>getKeys\<close> computes the maximum period seen in its
  local variable \<^verbatim>\<open>lastCheckedPeriod\<close> and then returns its argument
  \<^verbatim>\<open>lastChecked\<close> instead. With the checkpoint at period 18518 and the downloads of
  18520, 18519 and 18518 all succeeding, the local variable ends at 18520, the
  checkpoint returned is the old one, and the check commits the period 18518 again.
\<close>

theorem getKeys_returns_old_checkpoint:
  "getKeys example_io (Some (LastChecked 1600000000000 (Num 18518)))
     = ([''batch-18520'', ''batch-18519'', ''batch-18518''],
        Some (LastChecked 1600000000000 (Num 18518)))
   \<and> map snd (keysSinceLastFetch example_io (Num 18518)) = [18520, 18519, 18518]
   \<and> getKeys_lastCheckedPeriod example_io (Some (LastChecked 1600000000000 (Num 18518)))
       = Num 18520
   \<and> lastChecked (exposureStatus (snd (performExposureCheck example_io checked_service)))
       = Some (LastChecked 1600131600000 (Num 18518))"
  by code_simp

section \<open>Properties of the single-flight status update\<close>

















end
